theory Spec2Isabelle
  imports Complex_Main
begin

section \<open>Data model\<close>

text \<open>
  The engine of \<^verbatim>\<open>utils/forensic_alpha.py\<close> works on pandas objects. A float cell
  that may be missing (NaN) is a \<open>real option\<close> with \<open>None\<close> for NaN; arithmetic on
  the present values is exact real arithmetic. A \<^verbatim>\<open>pd.Series\<close> indexed by year is
  the list of its (label, value) pairs in index order.
\<close>

type_synonym cell = "real option"

type_synonym series = "(int \<times> cell) list"

datatype error = ValueError

text \<open>A row of the assembled frame \<^verbatim>\<open>df\<close>: index label and the four raw columns.\<close>

record df_row =
  idx :: int
  beneish :: cell
  sloan :: cell
  piotroski :: cell
  altman :: cell

text \<open>
  A row of the returned frame: the index label, the four columns copied from
  \<^verbatim>\<open>signals\<close>, and the columns \<^verbatim>\<open>forensic_alpha\<close>, \<^verbatim>\<open>signal_count\<close>, \<^verbatim>\<open>signal\<close>.
\<close>

record alpha_record =
  year :: int
  beneish_signal :: cell
  sloan_signal :: cell
  piotroski_signal :: cell
  altman_signal :: cell
  alpha :: cell
  signal_count :: nat
  signal :: string

section \<open>Series statistics used by the normalisation\<close>

text \<open>The non-missing values of a window, in order (pandas skips NaN in every reduction).\<close>

fun dropna :: "cell list \<Rightarrow> real list" where
  "dropna [] = []"
| "dropna (None # xs) = dropna xs"
| "dropna (Some v # xs) = v # dropna xs"

text \<open>\<^verbatim>\<open>Series.count()\<close>: the number of non-missing values.\<close>

definition series_count :: "cell list \<Rightarrow> nat" where
  "series_count window = length (dropna window)"

text \<open>\<^verbatim>\<open>Series.mean()\<close>: NaN when no value is present.\<close>

definition series_mean :: "cell list \<Rightarrow> cell" where
  "series_mean window =
     (let vs = dropna window
      in if vs = [] then None else Some (sum_list vs / real (length vs)))"

text \<open>\<^verbatim>\<open>Series.std()\<close> with its default \<open>ddof = 1\<close>: NaN below two present values.\<close>

definition series_std :: "cell list \<Rightarrow> cell" where
  "series_std window =
     (let vs = dropna window; n = length vs
      in if n < 2 then None
         else let m = sum_list vs / real n
              in Some (sqrt (sum_list (map (\<lambda>v. (v - m)\<^sup>2) vs) / real (n - 1))))"

section \<open>rolling_zscore\<close>

text \<open>
  The body of the loop for one window \<^verbatim>\<open>series.iloc[: i + 1]\<close>. The guard is tried
  first; in the other branch a missing operand makes the quotient missing.
\<close>

definition zscore_window :: "cell list \<Rightarrow> cell" where
  "zscore_window window =
     (if series_count window < 2 \<or> series_std window = Some 0 then Some 0
      else (case (last window, series_mean window, series_std window) of
              (Some v, Some m, Some s) \<Rightarrow> Some ((v - m) / s)
            | _ \<Rightarrow> None))"

definition rolling_zscore :: "cell list \<Rightarrow> cell list" where
  "rolling_zscore series = map (\<lambda>i. zscore_window (take (i + 1) series)) [0..<length series]"

section \<open>Assembling the frame\<close>

text \<open>
  Lines 41 to 46. \<^verbatim>\<open>pd.DataFrame({...})\<close> on four Series takes the union of their
  indexes (pandas 2, \<^verbatim>\<open>union_indexes\<close> with its default \<^verbatim>\<open>sort=True\<close>): when the four
  indexes are equal the first is kept as it is, otherwise the distinct labels are
  collected and sorted. Every Series is then reindexed to it: a Series whose index is
  the target keeps its values by position, one with a repeated label raises
  \<^verbatim>\<open>ValueError\<close> (cannot reindex on an axis with duplicate labels), and a label a
  Series does not have gives NaN.
\<close>

definition union_indexes :: "int list \<Rightarrow> int list \<Rightarrow> int list \<Rightarrow> int list \<Rightarrow> int list" where
  "union_indexes i1 i2 i3 i4 =
     (if i2 = i1 \<and> i3 = i1 \<and> i4 = i1 then i1 else sort (remdups (i1 @ i2 @ i3 @ i4)))"

definition lookup_cell :: "series \<Rightarrow> int \<Rightarrow> cell" where
  "lookup_cell s y = (case map_of s y of None \<Rightarrow> None | Some v \<Rightarrow> v)"

definition reindex :: "series \<Rightarrow> int list \<Rightarrow> error + cell list" where
  "reindex s index =
     (if map fst s = index then Inr (map snd s)
      else if distinct (map fst s) then Inr (map (lookup_cell s) index)
      else Inl ValueError)"

definition data_frame :: "series \<Rightarrow> series \<Rightarrow> series \<Rightarrow> series \<Rightarrow> error + df_row list" where
  "data_frame b s p a =
     (let index = union_indexes (map fst b) (map fst s) (map fst p) (map fst a)
      in case (reindex b index, reindex s index, reindex p index, reindex a index) of
           (Inr bs, Inr ss, Inr ps, Inr as) \<Rightarrow>
             Inr (map (\<lambda>i. \<lparr>idx = index ! i, beneish = bs ! i, sloan = ss ! i,
                            piotroski = ps ! i, altman = as ! i\<rparr>) [0..<length index])
         | _ \<Rightarrow> Inl ValueError)"

text \<open>\<^verbatim>\<open>df.notna().sum(axis=1)\<close> over the four raw columns of one row.\<close>

definition notna_sum :: "df_row \<Rightarrow> nat" where
  "notna_sum r = series_count [beneish r, sloan r, piotroski r, altman r]"

section \<open>Weights and the blend of one row\<close>

text \<open>Lines 68 to 73: the literal table \<^verbatim>\<open>base_weights\<close>, one constant per column.\<close>

definition w_beneish :: real where "w_beneish = 35 / 100"
definition w_sloan :: real where "w_sloan = 25 / 100"
definition w_piotroski :: real where "w_piotroski = 25 / 100"
definition w_altman :: real where "w_altman = 15 / 100"

text \<open>Unary minus on a column and multiplication by a weight keep NaN.\<close>

definition neg :: "cell \<Rightarrow> cell" where
  "neg c = map_option uminus c"

definition mul :: "cell \<Rightarrow> real \<Rightarrow> cell" where
  "mul c w = map_option (\<lambda>v. v * w) c"

text \<open>\<^verbatim>\<open>signals.mul(weights)\<close> for one row, in column order.\<close>

definition weighted :: "cell \<Rightarrow> cell \<Rightarrow> cell \<Rightarrow> cell \<Rightarrow> cell list" where
  "weighted bz sz pz az = [mul bz w_beneish, mul sz w_sloan, mul pz w_piotroski, mul az w_altman]"

text \<open>\<^verbatim>\<open>weighted.notna().mul(weights).sum(axis=1)\<close> for one row.\<close>

definition notna_weight :: "cell \<Rightarrow> real \<Rightarrow> real" where
  "notna_weight c w = (if c \<noteq> None then w else 0)"

definition normalized_weights :: "cell \<Rightarrow> cell \<Rightarrow> cell \<Rightarrow> cell \<Rightarrow> real" where
  "normalized_weights bz sz pz az =
     notna_weight (mul bz w_beneish) w_beneish + notna_weight (mul sz w_sloan) w_sloan
     + notna_weight (mul pz w_piotroski) w_piotroski + notna_weight (mul az w_altman) w_altman"

text \<open>\<^verbatim>\<open>sum(axis=1)\<close> skips NaN; the sum of no value is 0.\<close>

definition nansum :: "cell list \<Rightarrow> real" where
  "nansum cs = sum_list (dropna cs)"

text \<open>
  Line 84: \<^verbatim>\<open>weighted.sum(axis=1) / normalized_weights.replace(0, np.nan)\<close>, the value
  before rounding.
\<close>

definition blend :: "cell \<Rightarrow> cell \<Rightarrow> cell \<Rightarrow> cell \<Rightarrow> cell" where
  "blend bz sz pz az =
     (let d = normalized_weights bz sz pz az
      in if d = 0 then None else Some (nansum (weighted bz sz pz az) / d))"

text \<open>
  \<^verbatim>\<open>Series.round(4)\<close> is numpy's rounding: scale by \<open>10\<^sup>4\<close>, round to the nearest
  integer with ties to the even one, scale back. NaN stays NaN.
\<close>

definition rint :: "real \<Rightarrow> int" where
  "rint x =
     (let f = \<lfloor>x\<rfloor>; d = x - of_int f
      in if d < 1 / 2 then f else if 1 / 2 < d then f + 1 else if even f then f else f + 1)"

definition round4 :: "real \<Rightarrow> real" where
  "round4 x = of_int (rint (x * 10000)) / 10000"

definition round_cell :: "cell \<Rightarrow> cell" where
  "round_cell c = map_option round4 c"

section \<open>label\<close>

text \<open>A comparison with NaN is false, whichever side NaN is on.\<close>

definition gt :: "cell \<Rightarrow> real \<Rightarrow> bool" where
  "gt c x = (case c of None \<Rightarrow> False | Some v \<Rightarrow> x < v)"

definition lt :: "cell \<Rightarrow> real \<Rightarrow> bool" where
  "lt c x = (case c of None \<Rightarrow> False | Some v \<Rightarrow> v < x)"

definition label :: "cell \<Rightarrow> string" where
  "label a =
     (if gt a 1 then ''Strong Positive''
      else if gt a (3 / 10) then ''Positive''
      else if lt a (- 1) then ''Strong Negative''
      else if lt a (- (3 / 10)) then ''Negative''
      else ''Neutral'')"

section \<open>forensic_alpha\<close>

text \<open>
  Lines 58 to 108 on the filtered frame. The four signal columns are built on the
  frame's own index, so every later column operation is row by row: row \<open>i\<close> of the
  result holds the four signals at \<open>i\<close>, the rounded blend of these four, the signal
  count carried from the frame, and the label of the rounded blend.
\<close>

definition result_rows :: "df_row list \<Rightarrow> alpha_record list" where
  "result_rows df =
     (let bz = map neg (rolling_zscore (map beneish df));
          sz = map neg (rolling_zscore (map sloan df));
          pz = rolling_zscore (map piotroski df);
          az = rolling_zscore (map altman df)
      in map (\<lambda>i. let fa = round_cell (blend (bz ! i) (sz ! i) (pz ! i) (az ! i))
                  in \<lparr>year = idx (df ! i),
                      beneish_signal = bz ! i, sloan_signal = sz ! i,
                      piotroski_signal = pz ! i, altman_signal = az ! i,
                      alpha = fa, signal_count = notna_sum (df ! i), signal = label fa\<rparr>)
           [0..<length df])"

text \<open>Lines 48 to 50: the rows kept by the minimum-signal filter, in order.\<close>

definition keep_rows :: "int \<Rightarrow> df_row list \<Rightarrow> df_row list" where
  "keep_rows min_signals df0 = filter (\<lambda>r. min_signals \<le> int (notna_sum r)) df0"

text \<open>
  The whole function. An error of the frame constructor ends the call; an empty
  filtered frame returns the empty table (\<^verbatim>\<open>pd.DataFrame()\<close>, line 53).
\<close>

definition forensic_alpha ::
  "series \<Rightarrow> series \<Rightarrow> series \<Rightarrow> series \<Rightarrow> int \<Rightarrow> error + alpha_record list" where
  "forensic_alpha beneish_s sloan_s piotroski_s altman_s min_signals =
     (case data_frame beneish_s sloan_s piotroski_s altman_s of
        Inl e \<Rightarrow> Inl e
      | Inr df0 \<Rightarrow>
          (let df = keep_rows min_signals df0
           in if df = [] then Inr [] else Inr (result_rows df)))"

section \<open>Facts about the normalisation\<close>

lemma length_rolling_zscore: "length (rolling_zscore xs) = length xs"
  by (simp add: rolling_zscore_def)

lemma rolling_zscore_nth:
  "i < length xs \<Longrightarrow> rolling_zscore xs ! i = zscore_window (take (Suc i) xs)"
  by (simp add: rolling_zscore_def)

lemma last_take_Suc: "i < length xs \<Longrightarrow> last (take (Suc i) xs) = xs ! i"
  by (simp add: take_Suc_conv_app_nth)

lemma zscore_window_formula:
  "zscore_window w =
     (let obs = dropna w; n = length obs; m = sum_list obs / real n;
          sd = sqrt (sum_list (map (\<lambda>v. (v - m)\<^sup>2) obs) / real (n - 1))
      in if n < 2 \<or> sd = 0 then Some 0 else map_option (\<lambda>v. (v - m) / sd) (last w))"
proof (cases "length (dropna w) < 2")
  case True
  then show ?thesis by (simp add: zscore_window_def series_count_def Let_def)
next
  case False
  then have ne: "dropna w \<noteq> []" by auto
  show ?thesis
  proof (cases "last w")
    case None
    with False ne show ?thesis
      by (simp add: zscore_window_def series_count_def series_std_def series_mean_def Let_def)
  next
    case (Some v)
    with False ne show ?thesis
      by (simp add: zscore_window_def series_count_def series_std_def series_mean_def Let_def)
  qed
qed

lemma dropna_replicate: "dropna (replicate k (Some c)) = replicate k c"
  by (induction k) simp_all

lemma zscore_window_constant: "zscore_window (replicate k (Some c)) = Some 0"
proof (cases "k < 2")
  case True
  then show ?thesis by (simp add: zscore_window_def series_count_def dropna_replicate)
next
  case False
  then have "sum_list (replicate k c) / real k = c" by (simp add: sum_list_replicate)
  then have "series_std (replicate k (Some c)) = Some 0"
    using False by (simp add: series_std_def dropna_replicate Let_def sum_list_replicate)
  then show ?thesis by (simp add: zscore_window_def)
qed

lemma rolling_zscore_constant:
  "rolling_zscore (replicate n (Some c)) = replicate n (Some 0)"
proof (rule nth_equalityI)
  show "length (rolling_zscore (replicate n (Some c))) = length (replicate n (Some (0::real)))"
    by (simp add: length_rolling_zscore)
next
  fix i assume "i < length (rolling_zscore (replicate n (Some c)))"
  then have i: "i < n" by (simp add: length_rolling_zscore)
  then have "take (Suc i) (replicate n (Some c)) = replicate (Suc i) (Some c)"
    by (simp add: min_def)
  with i show "rolling_zscore (replicate n (Some c)) ! i = replicate n (Some 0) ! i"
    by (simp add: rolling_zscore_nth zscore_window_constant del: replicate_Suc)
qed


section \<open>Facts about the frame and the returned rows\<close>

lemma lookup_cell_distinct:
  "distinct (map fst s) \<Longrightarrow> map (lookup_cell s) (map fst s) = map snd s"
proof (rule nth_equalityI)
  show "length (map (lookup_cell s) (map fst s)) = length (map snd s)" by simp
next
  fix i assume d: "distinct (map fst s)" and "i < length (map (lookup_cell s) (map fst s))"
  then have i: "i < length s" by simp
  then have "(fst (s ! i), snd (s ! i)) \<in> set s" by (metis nth_mem prod.collapse)
  with d have "map_of s (fst (s ! i)) = Some (snd (s ! i))" by (rule map_of_is_SomeI)
  with i show "map (lookup_cell s) (map fst s) ! i = map snd s ! i"
    by (simp add: lookup_cell_def)
qed

lemma reindex_distinct:
  "distinct (map fst s) \<Longrightarrow> reindex s index = Inr (map (lookup_cell s) index)"
proof (cases "map fst s = index")
  case True
  assume "distinct (map fst s)"
  then have "map (lookup_cell s) (map fst s) = map snd s" by (rule lookup_cell_distinct)
  with True show ?thesis unfolding reindex_def by simp
next
  case False
  assume "distinct (map fst s)"
  with False show ?thesis by (simp add: reindex_def)
qed


lemma data_frame_distinct:
  assumes "distinct (map fst b)" "distinct (map fst s)" "distinct (map fst p)" "distinct (map fst a)"
  shows "data_frame b s p a =
     Inr (map (\<lambda>y. \<lparr>idx = y, beneish = lookup_cell b y, sloan = lookup_cell s y,
                     piotroski = lookup_cell p y, altman = lookup_cell a y\<rparr>)
            (union_indexes (map fst b) (map fst s) (map fst p) (map fst a)))"
  using assms
  by (auto simp: data_frame_def Let_def reindex_distinct intro!: nth_equalityI)

lemma length_result_rows: "length (result_rows df) = length df"
  by (simp add: result_rows_def Let_def)

lemma result_rows_Nil: "result_rows [] = []"
  by (simp add: result_rows_def Let_def)

lemma result_rows_nth:
  assumes "i < length df"
  shows "result_rows df ! i =
    \<lparr>year = idx (df ! i),
     beneish_signal = neg (rolling_zscore (map beneish df) ! i),
     sloan_signal = neg (rolling_zscore (map sloan df) ! i),
     piotroski_signal = rolling_zscore (map piotroski df) ! i,
     altman_signal = rolling_zscore (map altman df) ! i,
     alpha = round_cell (blend (neg (rolling_zscore (map beneish df) ! i))
                               (neg (rolling_zscore (map sloan df) ! i))
                               (rolling_zscore (map piotroski df) ! i)
                               (rolling_zscore (map altman df) ! i)),
     signal_count = notna_sum (df ! i),
     signal = label (round_cell (blend (neg (rolling_zscore (map beneish df) ! i))
                               (neg (rolling_zscore (map sloan df) ! i))
                               (rolling_zscore (map piotroski df) ! i)
                               (rolling_zscore (map altman df) ! i)))\<rparr>"
  using assms by (simp add: result_rows_def Let_def length_rolling_zscore)

lemma map_year_result_rows: "map year (result_rows df) = map idx df"
  by (rule nth_equalityI) (simp_all add: length_result_rows result_rows_nth)

lemma map_signal_count_result_rows: "map signal_count (result_rows df) = map notna_sum df"
  by (rule nth_equalityI) (simp_all add: length_result_rows result_rows_nth)

lemma forensic_alpha_Inr:
  "forensic_alpha b s p a m = Inr t \<longleftrightarrow>
     (\<exists>df0. data_frame b s p a = Inr df0 \<and> t = result_rows (keep_rows m df0))"
  by (auto simp: forensic_alpha_def Let_def result_rows_Nil split: sum.splits)

lemma zscore_present:
  assumes "i < length xs" "xs ! i \<noteq> None"
  shows "rolling_zscore xs ! i \<noteq> None"
proof -
  from assms obtain v where "last (take (Suc i) xs) = Some v"
    by (auto simp: last_take_Suc)
  then show ?thesis
    using assms(1) zscore_window_formula [of "take (Suc i) xs"]
    by (simp add: rolling_zscore_nth Let_def)
qed

lemma neg_None_iff: "neg c = None \<longleftrightarrow> c = None"
  by (simp add: neg_def)

lemma normalized_weights_cases:
  "normalized_weights bz sz pz az =
     (if bz = None then 0 else 35 / 100) + (if sz = None then 0 else 25 / 100)
     + (if pz = None then 0 else 25 / 100) + (if az = None then 0 else 15 / 100)"
  by (simp add: normalized_weights_def notna_weight_def mul_def
      w_beneish_def w_sloan_def w_piotroski_def w_altman_def)

lemma normalized_weights_zero_iff:
  "normalized_weights bz sz pz az = 0 \<longleftrightarrow> bz = None \<and> sz = None \<and> pz = None \<and> az = None"
  by (simp add: normalized_weights_cases)

lemma normalized_weights_nonneg: "0 \<le> normalized_weights bz sz pz az"
  by (simp add: normalized_weights_cases)

lemma blend_None_iff:
  "blend bz sz pz az = None \<longleftrightarrow> normalized_weights bz sz pz az = 0"
  by (simp add: blend_def Let_def)

lemma round_cell_None_iff: "round_cell c = None \<longleftrightarrow> c = None"
  by (simp add: round_cell_def)

lemma notna_sum_pos:
  "0 < notna_sum r \<Longrightarrow>
   beneish r \<noteq> None \<or> sloan r \<noteq> None \<or> piotroski r \<noteq> None \<or> altman r \<noteq> None"
  by (cases "beneish r"; cases "sloan r"; cases "piotroski r"; cases "altman r")
     (simp_all add: notna_sum_def series_count_def)

lemma result_row_present:
  assumes "i < length df" "0 < notna_sum (df ! i)"
  shows "beneish_signal (result_rows df ! i) \<noteq> None \<or> sloan_signal (result_rows df ! i) \<noteq> None
       \<or> piotroski_signal (result_rows df ! i) \<noteq> None \<or> altman_signal (result_rows df ! i) \<noteq> None"
proof -
  from notna_sum_pos [OF assms(2)]
  consider "beneish (df ! i) \<noteq> None" | "sloan (df ! i) \<noteq> None"
    | "piotroski (df ! i) \<noteq> None" | "altman (df ! i) \<noteq> None" by blast
  then show ?thesis
  proof cases
    case 1
    then have "rolling_zscore (map beneish df) ! i \<noteq> None"
      using assms(1) by (intro zscore_present) simp_all
    then show ?thesis using assms(1) by (simp add: result_rows_nth neg_None_iff)
  next
    case 2
    then have "rolling_zscore (map sloan df) ! i \<noteq> None"
      using assms(1) by (intro zscore_present) simp_all
    then show ?thesis using assms(1) by (simp add: result_rows_nth neg_None_iff)
  next
    case 3
    then have "rolling_zscore (map piotroski df) ! i \<noteq> None"
      using assms(1) by (intro zscore_present) simp_all
    then show ?thesis using assms(1) by (simp add: result_rows_nth)
  next
    case 4
    then have "rolling_zscore (map altman df) ! i \<noteq> None"
      using assms(1) by (intro zscore_present) simp_all
    then show ?thesis using assms(1) by (simp add: result_rows_nth)
  qed
qed

lemma result_row_alpha:
  assumes "i < length df"
  shows "alpha (result_rows df ! i) =
     round_cell (blend (beneish_signal (result_rows df ! i)) (sloan_signal (result_rows df ! i))
                       (piotroski_signal (result_rows df ! i)) (altman_signal (result_rows df ! i)))"
    and "signal (result_rows df ! i) = label (alpha (result_rows df ! i))"
  using assms by (simp_all add: result_rows_nth)

lemma keep_rows_nth:
  "i < length (keep_rows m df0) \<Longrightarrow> m \<le> int (notna_sum (keep_rows m df0 ! i))"
  using nth_mem [of i "keep_rows m df0"] by (simp add: keep_rows_def)


lemma in_result_rows:
  assumes "forensic_alpha b s p a m = Inr t" "r \<in> set t"
  obtains df0 i where "data_frame b s p a = Inr df0" "i < length (keep_rows m df0)"
    "r = result_rows (keep_rows m df0) ! i"
proof -
  from assms(1) obtain df0 where d: "data_frame b s p a = Inr df0"
    and t: "t = result_rows (keep_rows m df0)"
    by (auto simp: forensic_alpha_Inr)
  from assms(2) t obtain i where "i < length (keep_rows m df0)"
    "r = result_rows (keep_rows m df0) ! i"
    by (auto simp: in_set_conv_nth length_result_rows)
  with d that show thesis by blast
qed

lemma row_alpha_label:
  assumes "forensic_alpha b s p a m = Inr t" "r \<in> set t"
  shows "alpha r = round_cell (blend (beneish_signal r) (sloan_signal r)
                                (piotroski_signal r) (altman_signal r))"
    and "signal r = label (alpha r)"
proof -
  from assms obtain df0 i where i: "i < length (keep_rows m df0)"
    and r: "r = result_rows (keep_rows m df0) ! i" by (rule in_result_rows)
  show "alpha r = round_cell (blend (beneish_signal r) (sloan_signal r)
                                (piotroski_signal r) (altman_signal r))"
    unfolding r by (rule result_row_alpha(1) [OF i])
  show "signal r = label (alpha r)"
    unfolding r by (rule result_row_alpha(2) [OF i])
qed

lemma surviving_row_present:
  assumes "1 \<le> m" "forensic_alpha b s p a m = Inr t" "r \<in> set t"
  shows "beneish_signal r \<noteq> None \<or> sloan_signal r \<noteq> None
           \<or> piotroski_signal r \<noteq> None \<or> altman_signal r \<noteq> None"
proof -
  from assms(2,3) obtain df0 i where i: "i < length (keep_rows m df0)"
    and r: "r = result_rows (keep_rows m df0) ! i" by (rule in_result_rows)
  from i assms(1) have "0 < notna_sum (keep_rows m df0 ! i)"
    using keep_rows_nth [of i m df0] by simp
  from result_row_present [OF i this] r show ?thesis by simp
qed

lemma surviving_row_alpha:
  assumes "1 \<le> m" "forensic_alpha b s p a m = Inr t" "r \<in> set t"
  shows "alpha r \<noteq> None"
  using surviving_row_present [OF assms] row_alpha_label(1) [OF assms(2,3)]
  by (simp add: round_cell_None_iff blend_None_iff normalized_weights_zero_iff)


lemma map_idx_keep_rows: "map idx (keep_rows m df0) = map idx (filter (\<lambda>r. m \<le> int (notna_sum r)) df0)"
  by (simp add: keep_rows_def)

lemma notna_sum_count:
  "notna_sum r = (if beneish r = None then 0 else 1) + (if sloan r = None then 0 else 1)
     + (if piotroski r = None then 0 else 1) + (if altman r = None then 0 else 1)"
  by (cases "beneish r"; cases "sloan r"; cases "piotroski r"; cases "altman r")
     (simp_all add: notna_sum_def series_count_def)

lemma result_rows_columns:
  "map beneish_signal (result_rows df) = map neg (rolling_zscore (map beneish df))"
  "map sloan_signal (result_rows df) = map neg (rolling_zscore (map sloan df))"
  "map piotroski_signal (result_rows df) = rolling_zscore (map piotroski df)"
  "map altman_signal (result_rows df) = rolling_zscore (map altman df)"
  by (rule nth_equalityI; simp add: length_result_rows length_rolling_zscore result_rows_nth)+


section \<open>Facts about rounding\<close>

lemma rint_nearest:
  assumes "of_int n - 1 / 2 < x" "x < of_int n + 1 / 2"
  shows "rint x = n"
proof -
  have "of_int (n - 1) \<le> x" using assms(1) by simp
  then have lo: "n - 1 \<le> \<lfloor>x\<rfloor>" by (simp only: le_floor_iff)
  have "x < of_int (n + 1)" using assms(2) by simp
  then have hi: "\<lfloor>x\<rfloor> < n + 1" by (simp only: floor_less_iff)
  from lo hi consider "\<lfloor>x\<rfloor> = n" | "\<lfloor>x\<rfloor> = n - 1" by linarith
  then show ?thesis
  proof cases
    case 1
    with assms(2) show ?thesis by (simp add: rint_def Let_def)
  next
    case 2
    with assms(1) show ?thesis by (simp add: rint_def Let_def)
  qed
qed

lemma rint_close: "\<bar>of_int (rint x) - x\<bar> \<le> 1 / 2"
proof -
  have "of_int \<lfloor>x\<rfloor> \<le> x" "x < of_int \<lfloor>x\<rfloor> + 1" by linarith+
  then show ?thesis by (auto simp: rint_def Let_def)
qed

lemma round4_close: "\<bar>round4 x - x\<bar> \<le> 1 / 20000"
  using rint_close [of "x * 10000"] by (simp add: round4_def field_simps)

lemma round4_same_cell:
  assumes "of_int k - 1 / 2 < x * 10000" "x * 10000 < of_int k + 1 / 2"
    and "of_int k - 1 / 2 < y * 10000" "y * 10000 < of_int k + 1 / 2"
  shows "round4 x = round4 y"
  using rint_nearest [OF assms(1,2)] rint_nearest [OF assms(3,4)] by (simp add: round4_def)

lemma sqrt2_bounds: "1414 / 1000 < sqrt 2" "sqrt 2 < 14145 / 10000"
proof -
  have "(1414 / 1000 :: real)\<^sup>2 < 2" by (simp add: power2_eq_square)
  then show "1414 / 1000 < sqrt 2" by (rule real_less_rsqrt)
  have "(2::real) < (14145 / 10000)\<^sup>2" by (simp add: power2_eq_square)
  then show "sqrt 2 < 14145 / 10000" by (intro real_less_lsqrt) simp_all
qed


lemma rint_of_int: "rint (of_int k) = k"
  by (rule rint_nearest) simp_all

lemma round4_fixed: "round4 (of_int k / 10000) = of_int k / 10000"
  by (simp add: round4_def rint_of_int)

section \<open>Facts about the blend\<close>

lemma blend_formula:
  "blend bz sz pz az =
     (let present = filter (\<lambda>(c, w). c \<noteq> None)
            [(bz, 35 / 100), (sz, 25 / 100), (pz, 25 / 100), (az, 15 / 100)]
      in if present = [] then None
         else Some (sum_list (map (\<lambda>(c, w). case c of None \<Rightarrow> 0 | Some v \<Rightarrow> v * w) present)
                    / sum_list (map snd present)))"
  by (cases bz; cases sz; cases pz; cases az)
     (simp_all add: blend_def normalized_weights_def notna_weight_def mul_def weighted_def
        nansum_def w_beneish_def w_sloan_def w_piotroski_def w_altman_def Let_def)

lemma blend_one_missing:
  "blend None (Some y) (Some z) (Some u)
     = Some ((y * (25 / 100) + z * (25 / 100) + u * (15 / 100)) / (25 / 100 + 25 / 100 + 15 / 100))"
  "blend (Some x) None (Some z) (Some u)
     = Some ((x * (35 / 100) + z * (25 / 100) + u * (15 / 100)) / (35 / 100 + 25 / 100 + 15 / 100))"
  "blend (Some x) (Some y) None (Some u)
     = Some ((x * (35 / 100) + y * (25 / 100) + u * (15 / 100)) / (35 / 100 + 25 / 100 + 15 / 100))"
  "blend (Some x) (Some y) (Some z) None
     = Some ((x * (35 / 100) + y * (25 / 100) + z * (25 / 100)) / (35 / 100 + 25 / 100 + 25 / 100))"
  by (simp_all add: blend_def normalized_weights_def notna_weight_def mul_def weighted_def
        nansum_def w_beneish_def w_sloan_def w_piotroski_def w_altman_def Let_def)

lemma result_rows_signals:
  assumes "i < length df"
  shows "beneish_signal (result_rows df ! i) = map_option uminus (rolling_zscore (map beneish df) ! i)"
    and "sloan_signal (result_rows df ! i) = map_option uminus (rolling_zscore (map sloan df) ! i)"
    and "piotroski_signal (result_rows df ! i) = rolling_zscore (map piotroski df) ! i"
    and "altman_signal (result_rows df ! i) = rolling_zscore (map altman df) ! i"
  using assms by (simp_all add: result_rows_nth neg_def)


lemma notna_weight_simps: "notna_weight None w = 0" "notna_weight (Some v) w = w"
  by (simp_all add: notna_weight_def)

text \<open>The definitions to unfold when the engine is run on a concrete input.\<close>

lemmas eval_defs =
  forensic_alpha_def data_frame_def union_indexes_def reindex_def lookup_cell_def
  keep_rows_def notna_sum_def series_count_def series_mean_def series_std_def
  zscore_window_def rolling_zscore_def result_rows_def neg_def mul_def weighted_def
  notna_weight_simps normalized_weights_def nansum_def blend_def round_cell_def round4_def
  rint_def label_def gt_def lt_def w_beneish_def w_sloan_def w_piotroski_def w_altman_def
  Let_def upt_rec

section \<open>The normalisation has no look-ahead\<close>

text \<open>
  C1. The value \<open>rolling_zscore\<close> gives at position \<open>i\<close> depends on the positions
  \<open>0..i\<close> only: two series that agree there (whatever follows is altered, removed or
  appended) have the same normalised value at \<open>i\<close>.
\<close>

theorem rolling_zscore_no_look_ahead:
  "take (Suc i) xs = take (Suc i) ys \<Longrightarrow> i < length xs \<Longrightarrow> i < length ys \<Longrightarrow>
   rolling_zscore xs ! i = rolling_zscore ys ! i"
  by (simp add: rolling_zscore_nth)

theorem rolling_zscore_no_look_ahead_witness:
  "take (Suc 1) [Some 2, None, Some 5] = take (Suc 1) [Some 2, None, Some 9, Some (4::real)]
   \<and> (1::nat) < length [Some 2, None, Some (5::real)]
   \<and> (1::nat) < length [Some 2, None, Some 9, Some (4::real)]
   \<and> rolling_zscore [Some 2, None, Some 5] ! 1
       = rolling_zscore [Some 2, None, Some 9, Some 4] ! 1"
  using rolling_zscore_no_look_ahead
    [of 1 "[Some 2, None, Some 5]" "[Some 2, None, Some 9, Some 4]"]
  by simp

section \<open>The normalisation formula\<close>



section \<open>Labels\<close>

text \<open>
  C8. A present alpha is classified by strict thresholds tried in this order: above
  1.0 "Strong Positive", above 0.3 "Positive", below -1.0 "Strong Negative", below
  -0.3 "Negative", otherwise "Neutral". So 1.0 is "Positive", 1.0001 is
  "Strong Positive", 0.3 and -0.3 are "Neutral", and -0.3001 is "Negative".
\<close>

theorem label_boundaries:
  "label (Some a) =
     (if 1 < a then ''Strong Positive''
      else if 3 / 10 < a then ''Positive''
      else if a < - 1 then ''Strong Negative''
      else if a < - (3 / 10) then ''Negative''
      else ''Neutral'')
   \<and> label (Some 1) = ''Positive''
   \<and> label (Some (10001 / 10000)) = ''Strong Positive''
   \<and> label (Some (3 / 10)) = ''Neutral''
   \<and> label (Some (- (3 / 10))) = ''Neutral''
   \<and> label (Some (- (3001 / 10000))) = ''Negative''"
  by (simp add: label_def gt_def lt_def)

section \<open>Minimum-signal exclusion\<close>

text \<open>
  C6. For four series that are mappings (no year twice in one series) the engine
  returns a table for every \<open>min_signals\<close>. The frame has one row per year of the
  union of the four indexes, a cell being the series' value at that year or missing;
  the signal count of a row is the number of its present cells among the four; the
  returned years are exactly the frame's years whose count reaches \<open>min_signals\<close>, in
  the frame's order, with their counts; the four normalised columns are computed from
  the kept rows only; and when no row is kept the returned table has no row.
\<close>

theorem minimum_signal_exclusion:
  assumes "distinct (map fst b)" "distinct (map fst s)" "distinct (map fst p)" "distinct (map fst a)"
  shows "\<exists>df0 t. data_frame b s p a = Inr df0 \<and> forensic_alpha b s p a m = Inr t
     \<and> map idx df0 = union_indexes (map fst b) (map fst s) (map fst p) (map fst a)
     \<and> (\<forall>r \<in> set df0.
          beneish r = lookup_cell b (idx r) \<and> sloan r = lookup_cell s (idx r)
          \<and> piotroski r = lookup_cell p (idx r) \<and> altman r = lookup_cell a (idx r)
          \<and> notna_sum r = (if beneish r = None then 0 else 1) + (if sloan r = None then 0 else 1)
               + (if piotroski r = None then 0 else 1) + (if altman r = None then 0 else 1))
     \<and> map year t = map idx (filter (\<lambda>r. m \<le> int (notna_sum r)) df0)
     \<and> map signal_count t = map notna_sum (filter (\<lambda>r. m \<le> int (notna_sum r)) df0)
     \<and> map beneish_signal t
          = map neg (rolling_zscore (map beneish (filter (\<lambda>r. m \<le> int (notna_sum r)) df0)))
     \<and> map sloan_signal t
          = map neg (rolling_zscore (map sloan (filter (\<lambda>r. m \<le> int (notna_sum r)) df0)))
     \<and> map piotroski_signal t
          = rolling_zscore (map piotroski (filter (\<lambda>r. m \<le> int (notna_sum r)) df0))
     \<and> map altman_signal t
          = rolling_zscore (map altman (filter (\<lambda>r. m \<le> int (notna_sum r)) df0))
     \<and> (filter (\<lambda>r. m \<le> int (notna_sum r)) df0 = [] \<longrightarrow> t = [])"
proof -
  let ?index = "union_indexes (map fst b) (map fst s) (map fst p) (map fst a)"
  let ?df0 = "map (\<lambda>y. \<lparr>idx = y, beneish = lookup_cell b y, sloan = lookup_cell s y,
                     piotroski = lookup_cell p y, altman = lookup_cell a y\<rparr>) ?index"
  let ?t = "result_rows (keep_rows m ?df0)"
  have df0: "data_frame b s p a = Inr ?df0" using assms by (rule data_frame_distinct)
  then have t: "forensic_alpha b s p a m = Inr ?t" by (auto simp: forensic_alpha_Inr)
  have i: "map idx ?df0 = ?index" by (simp add: comp_def)
  have c: "\<forall>r \<in> set ?df0.
          beneish r = lookup_cell b (idx r) \<and> sloan r = lookup_cell s (idx r)
          \<and> piotroski r = lookup_cell p (idx r) \<and> altman r = lookup_cell a (idx r)
          \<and> notna_sum r = (if beneish r = None then 0 else 1) + (if sloan r = None then 0 else 1)
               + (if piotroski r = None then 0 else 1) + (if altman r = None then 0 else 1)"
    using notna_sum_count by auto
  have k: "keep_rows m ?df0 = filter (\<lambda>r. m \<le> int (notna_sum r)) ?df0"
    by (simp add: keep_rows_def)
  have y: "map year ?t = map idx (filter (\<lambda>r. m \<le> int (notna_sum r)) ?df0)"
    by (simp only: map_year_result_rows k)
  have n: "map signal_count ?t = map notna_sum (filter (\<lambda>r. m \<le> int (notna_sum r)) ?df0)"
    by (simp only: map_signal_count_result_rows k)
  have z: "map beneish_signal ?t
          = map neg (rolling_zscore (map beneish (filter (\<lambda>r. m \<le> int (notna_sum r)) ?df0)))"
     "map sloan_signal ?t
          = map neg (rolling_zscore (map sloan (filter (\<lambda>r. m \<le> int (notna_sum r)) ?df0)))"
     "map piotroski_signal ?t
          = rolling_zscore (map piotroski (filter (\<lambda>r. m \<le> int (notna_sum r)) ?df0))"
     "map altman_signal ?t
          = rolling_zscore (map altman (filter (\<lambda>r. m \<le> int (notna_sum r)) ?df0))"
    by (simp_all only: result_rows_columns k)
  have e: "filter (\<lambda>r. m \<le> int (notna_sum r)) ?df0 = [] \<longrightarrow> ?t = []"
    by (simp only: k [symmetric]) (simp add: result_rows_Nil)
  from df0 t i c y n z e show ?thesis by blast
qed

text \<open>
  The years 2020 to 2024 with signal counts 4, 2, 4, 1, 3 and \<open>min_signals = 3\<close>: the
  years 2020, 2022 and 2024 are returned, in this order, with counts 4, 4, 3.
\<close>

theorem minimum_signal_exclusion_witness:
  "distinct (map fst [(2020::int, Some (1::real)), (2021, Some 2), (2022, Some 3), (2024, Some 5)])
   \<and> distinct (map fst [(2020::int, Some (1::real)), (2021, None), (2022, Some 2), (2023, None),
                         (2024, Some 1)])
   \<and> distinct (map fst [(2020::int, Some (6::real)), (2021, Some 7), (2022, Some 8), (2023, Some 5),
                         (2024, Some 4)])
   \<and> distinct (map fst [(2020::int, Some (3::real)), (2022, Some 2)])
   \<and> map_sum id (map year)
        (forensic_alpha [(2020, Some 1), (2021, Some 2), (2022, Some 3), (2024, Some 5)]
           [(2020, Some 1), (2021, None), (2022, Some 2), (2023, None), (2024, Some 1)]
           [(2020, Some 6), (2021, Some 7), (2022, Some 8), (2023, Some 5), (2024, Some 4)]
           [(2020, Some 3), (2022, Some 2)] 3) = Inr [2020, 2022, 2024]
   \<and> map_sum id (map signal_count)
        (forensic_alpha [(2020, Some 1), (2021, Some 2), (2022, Some 3), (2024, Some 5)]
           [(2020, Some 1), (2021, None), (2022, Some 2), (2023, None), (2024, Some 1)]
           [(2020, Some 6), (2021, Some 7), (2022, Some 8), (2023, Some 5), (2024, Some 4)]
           [(2020, Some 3), (2022, Some 2)] 3) = Inr [4, 4, 3]"
proof -
  let ?b = "[(2020, Some 1), (2021, Some 2), (2022, Some 3), (2024, Some 5)] :: series"
  let ?s = "[(2020, Some 1), (2021, None), (2022, Some 2), (2023, None), (2024, Some 1)] :: series"
  let ?p = "[(2020, Some 6), (2021, Some 7), (2022, Some 8), (2023, Some 5), (2024, Some 4)] :: series"
  let ?a = "[(2020, Some 3), (2022, Some 2)] :: series"
  have d: "distinct (map fst ?b)" "distinct (map fst ?s)" "distinct (map fst ?p)"
    "distinct (map fst ?a)" by simp_all
  from minimum_signal_exclusion [OF d, of 3]
  obtain df0 t where df0: "data_frame ?b ?s ?p ?a = Inr df0"
    and t: "forensic_alpha ?b ?s ?p ?a 3 = Inr t"
    and y: "map year t = map idx (filter (\<lambda>r. 3 \<le> int (notna_sum r)) df0)"
    and n: "map signal_count t = map notna_sum (filter (\<lambda>r. 3 \<le> int (notna_sum r)) df0)"
    by blast
  have "data_frame ?b ?s ?p ?a =
    Inr [\<lparr>idx = 2020, beneish = Some 1, sloan = Some 1, piotroski = Some 6, altman = Some 3\<rparr>,
         \<lparr>idx = 2021, beneish = Some 2, sloan = None, piotroski = Some 7, altman = None\<rparr>,
         \<lparr>idx = 2022, beneish = Some 3, sloan = Some 2, piotroski = Some 8, altman = Some 2\<rparr>,
         \<lparr>idx = 2023, beneish = None, sloan = None, piotroski = Some 5, altman = None\<rparr>,
         \<lparr>idx = 2024, beneish = Some 5, sloan = Some 1, piotroski = Some 4, altman = None\<rparr>]"
    by (simp add: data_frame_def union_indexes_def reindex_def lookup_cell_def Let_def upt_rec)
  with df0 have "df0 =
        [\<lparr>idx = 2020, beneish = Some 1, sloan = Some 1, piotroski = Some 6, altman = Some 3\<rparr>,
         \<lparr>idx = 2021, beneish = Some 2, sloan = None, piotroski = Some 7, altman = None\<rparr>,
         \<lparr>idx = 2022, beneish = Some 3, sloan = Some 2, piotroski = Some 8, altman = Some 2\<rparr>,
         \<lparr>idx = 2023, beneish = None, sloan = None, piotroski = Some 5, altman = None\<rparr>,
         \<lparr>idx = 2024, beneish = Some 5, sloan = Some 1, piotroski = Some 4, altman = None\<rparr>]"
    by simp
  with y n have "map year t = [2020, 2022, 2024]" "map signal_count t = [4, 4, 3]"
    by (simp_all add: notna_sum_def series_count_def)
  with t d show ?thesis by (simp only: map_sum.simps id_apply simp_thms)
qed

section \<open>The zero denominator\<close>

text \<open>
  C7. The effective denominator of a row is 0 exactly when its four normalised signals
  are all missing, and then the rounded alpha is missing: no division by zero is made.
  With \<open>min_signals\<close> at least 1, every returned row has a present normalised signal,
  a strictly positive effective denominator and a present alpha.
\<close>

theorem zero_denominator:
  "(normalized_weights bz sz pz az = 0 \<longleftrightarrow> bz = None \<and> sz = None \<and> pz = None \<and> az = None)
   \<and> (normalized_weights bz sz pz az = 0 \<longrightarrow> round_cell (blend bz sz pz az) = None)
   \<and> (1 \<le> m \<longrightarrow> forensic_alpha b s p a m = Inr t \<longrightarrow>
        (\<forall>r \<in> set t.
           (beneish_signal r \<noteq> None \<or> sloan_signal r \<noteq> None
              \<or> piotroski_signal r \<noteq> None \<or> altman_signal r \<noteq> None)
           \<and> 0 < normalized_weights (beneish_signal r) (sloan_signal r)
                    (piotroski_signal r) (altman_signal r)
           \<and> alpha r \<noteq> None))"
proof -
  have A: "normalized_weights bz sz pz az = 0 \<longleftrightarrow> bz = None \<and> sz = None \<and> pz = None \<and> az = None"
    by (rule normalized_weights_zero_iff)
  have B: "normalized_weights bz sz pz az = 0 \<longrightarrow> round_cell (blend bz sz pz az) = None"
    by (simp add: blend_None_iff round_cell_None_iff)
  have C: "(beneish_signal r \<noteq> None \<or> sloan_signal r \<noteq> None
              \<or> piotroski_signal r \<noteq> None \<or> altman_signal r \<noteq> None)
           \<and> 0 < normalized_weights (beneish_signal r) (sloan_signal r)
                    (piotroski_signal r) (altman_signal r)
           \<and> alpha r \<noteq> None"
    if m: "1 \<le> m" and res: "forensic_alpha b s p a m = Inr t" and r: "r \<in> set t" for r
  proof -
    have p: "beneish_signal r \<noteq> None \<or> sloan_signal r \<noteq> None
                \<or> piotroski_signal r \<noteq> None \<or> altman_signal r \<noteq> None"
      using m res r by (rule surviving_row_present)
    then have "normalized_weights (beneish_signal r) (sloan_signal r)
                      (piotroski_signal r) (altman_signal r) \<noteq> 0"
      by (simp add: normalized_weights_zero_iff)
    then have pos: "0 < normalized_weights (beneish_signal r) (sloan_signal r)
                      (piotroski_signal r) (altman_signal r)"
      using normalized_weights_nonneg
        [of "beneish_signal r" "sloan_signal r" "piotroski_signal r" "altman_signal r"]
      by linarith
    have "alpha r \<noteq> None" using m res r by (rule surviving_row_alpha)
    with p pos show ?thesis by blast
  qed
  from A B C show ?thesis by blast
qed

theorem zero_denominator_witness:
  "normalized_weights None None None None = 0
   \<and> round_cell (blend None None None None) = None
   \<and> (1::int) \<le> 1
   \<and> forensic_alpha [(2021, Some 4)] [(2021, None)] [(2021, None)] [(2021, None)] 1 =
       Inr [\<lparr>year = 2021, beneish_signal = Some 0, sloan_signal = Some 0,
             piotroski_signal = Some 0, altman_signal = Some 0, alpha = Some 0,
             signal_count = 1, signal = ''Neutral''\<rparr>]
   \<and> 0 < normalized_weights (Some 0) (Some 0) (Some 0) (Some 0)
   \<and> alpha \<lparr>year = 2021, beneish_signal = Some 0, sloan_signal = Some 0,
             piotroski_signal = Some 0, altman_signal = Some 0, alpha = Some 0,
             signal_count = 1, signal = ''Neutral''\<rparr> \<noteq> None"
proof -
  let ?r = "\<lparr>year = 2021, beneish_signal = Some 0, sloan_signal = Some 0,
             piotroski_signal = Some 0, altman_signal = Some 0, alpha = Some 0,
             signal_count = 1, signal = ''Neutral''\<rparr>"
  have run: "forensic_alpha [(2021, Some 4)] [(2021, None)] [(2021, None)] [(2021, None)] 1
      = Inr [?r]"
    by (simp add: eval_defs)
  have z: "normalized_weights None None None None = 0"
    by (simp add: normalized_weights_zero_iff)
  from zero_denominator [of None None None None 1 "[(2021, Some 4)]" "[(2021, None)]"
      "[(2021, None)]" "[(2021, None)]" "[?r]"] run z
  show ?thesis by simp
qed

section \<open>Order of the returned rows\<close>





section \<open>The blend\<close>

text \<open>
  C2 (amended). In every returned row the beneish and sloan signals are the negated
  normalised values and the piotroski and altman signals the normalised values as
  they are; the static weights are 0.35, 0.25, 0.25, 0.15 and sum to 1.0; and
  \<open>forensic_alpha\<close> is, rounded to 4 decimal places, the sum of the present signals
  each times its weight, divided by the sum of the weights of the present signals
  only (missing when no signal is present). With exactly one signal missing it is the
  rounded weighted sum of the other three divided by the sum of their three weights.
\<close>

theorem blending_formula:
  assumes "forensic_alpha b s p a m = Inr t" and "i < length t"
  shows "(\<exists>df0. data_frame b s p a = Inr df0 \<and>
      (let df = filter (\<lambda>r. m \<le> int (notna_sum r)) df0; r = t ! i;
           present = filter (\<lambda>(c, w). c \<noteq> None)
             [(beneish_signal r, 35 / 100), (sloan_signal r, 25 / 100),
              (piotroski_signal r, 25 / 100), (altman_signal r, 15 / 100)]
       in beneish_signal r = map_option uminus (rolling_zscore (map beneish df) ! i)
        \<and> sloan_signal r = map_option uminus (rolling_zscore (map sloan df) ! i)
        \<and> piotroski_signal r = rolling_zscore (map piotroski df) ! i
        \<and> altman_signal r = rolling_zscore (map altman df) ! i
        \<and> alpha r =
            (if present = [] then None
             else Some (round4
               (sum_list (map (\<lambda>(c, w). case c of None \<Rightarrow> 0 | Some v \<Rightarrow> v * w) present)
                / sum_list (map snd present))))))
    \<and> (\<forall>x y z u.
         (beneish_signal (t ! i) = None \<and> sloan_signal (t ! i) = Some y
            \<and> piotroski_signal (t ! i) = Some z \<and> altman_signal (t ! i) = Some u
          \<longrightarrow> alpha (t ! i) = Some (round4 ((y * (25 / 100) + z * (25 / 100) + u * (15 / 100))
                                    / (25 / 100 + 25 / 100 + 15 / 100))))
       \<and> (beneish_signal (t ! i) = Some x \<and> sloan_signal (t ! i) = None
            \<and> piotroski_signal (t ! i) = Some z \<and> altman_signal (t ! i) = Some u
          \<longrightarrow> alpha (t ! i) = Some (round4 ((x * (35 / 100) + z * (25 / 100) + u * (15 / 100))
                                    / (35 / 100 + 25 / 100 + 15 / 100))))
       \<and> (beneish_signal (t ! i) = Some x \<and> sloan_signal (t ! i) = Some y
            \<and> piotroski_signal (t ! i) = None \<and> altman_signal (t ! i) = Some u
          \<longrightarrow> alpha (t ! i) = Some (round4 ((x * (35 / 100) + y * (25 / 100) + u * (15 / 100))
                                    / (35 / 100 + 25 / 100 + 15 / 100))))
       \<and> (beneish_signal (t ! i) = Some x \<and> sloan_signal (t ! i) = Some y
            \<and> piotroski_signal (t ! i) = Some z \<and> altman_signal (t ! i) = None
          \<longrightarrow> alpha (t ! i) = Some (round4 ((x * (35 / 100) + y * (25 / 100) + z * (25 / 100))
                                    / (35 / 100 + 25 / 100 + 25 / 100)))))
    \<and> w_beneish = 35 / 100 \<and> w_sloan = 25 / 100 \<and> w_piotroski = 25 / 100 \<and> w_altman = 15 / 100
    \<and> w_beneish + w_sloan + w_piotroski + w_altman = 1"
proof -
  from assms(1) obtain df0 where df0: "data_frame b s p a = Inr df0"
    and t: "t = result_rows (keep_rows m df0)"
    by (auto simp: forensic_alpha_Inr)
  define df where "df = filter (\<lambda>r. m \<le> int (notna_sum r)) df0"
  have t': "t = result_rows df" by (simp add: t df_def keep_rows_def)
  with assms(2) have i: "i < length df" by (simp add: length_result_rows)
  define r where "r = t ! i"
  have al: "alpha r = round_cell (blend (beneish_signal r) (sloan_signal r)
                                    (piotroski_signal r) (altman_signal r))"
    unfolding r_def t' by (rule result_row_alpha(1) [OF i])
  have sg: "beneish_signal r = map_option uminus (rolling_zscore (map beneish df) ! i)"
    "sloan_signal r = map_option uminus (rolling_zscore (map sloan df) ! i)"
    "piotroski_signal r = rolling_zscore (map piotroski df) ! i"
    "altman_signal r = rolling_zscore (map altman df) ! i"
    unfolding r_def t' by (rule result_rows_signals [OF i])+
  have fm: "alpha r =
      (let present = filter (\<lambda>(c, w). c \<noteq> None)
             [(beneish_signal r, 35 / 100), (sloan_signal r, 25 / 100),
              (piotroski_signal r, 25 / 100), (altman_signal r, 15 / 100)]
       in if present = [] then None
          else Some (round4
               (sum_list (map (\<lambda>(c, w). case c of None \<Rightarrow> 0 | Some v \<Rightarrow> v * w) present)
                / sum_list (map snd present))))"
    unfolding al
    by (subst blend_formula) (simp add: Let_def round_cell_def)
  have A: "\<exists>df0. data_frame b s p a = Inr df0 \<and>
      (let df = filter (\<lambda>r. m \<le> int (notna_sum r)) df0; r = t ! i;
           present = filter (\<lambda>(c, w). c \<noteq> None)
             [(beneish_signal r, 35 / 100), (sloan_signal r, 25 / 100),
              (piotroski_signal r, 25 / 100), (altman_signal r, 15 / 100)]
       in beneish_signal r = map_option uminus (rolling_zscore (map beneish df) ! i)
        \<and> sloan_signal r = map_option uminus (rolling_zscore (map sloan df) ! i)
        \<and> piotroski_signal r = rolling_zscore (map piotroski df) ! i
        \<and> altman_signal r = rolling_zscore (map altman df) ! i
        \<and> alpha r =
            (if present = [] then None
             else Some (round4
               (sum_list (map (\<lambda>(c, w). case c of None \<Rightarrow> 0 | Some v \<Rightarrow> v * w) present)
                / sum_list (map snd present)))))"
    apply (rule exI [of _ df0])
    apply (rule conjI [OF df0])
    unfolding Let_def df_def [symmetric] r_def [symmetric]
    using sg fm unfolding Let_def by blast
  have B: "beneish_signal r = None \<and> sloan_signal r = Some y
            \<and> piotroski_signal r = Some z \<and> altman_signal r = Some u
          \<longrightarrow> alpha r = Some (round4 ((y * (25 / 100) + z * (25 / 100) + u * (15 / 100))
                                    / (25 / 100 + 25 / 100 + 15 / 100)))"
       "beneish_signal r = Some x \<and> sloan_signal r = None
            \<and> piotroski_signal r = Some z \<and> altman_signal r = Some u
          \<longrightarrow> alpha r = Some (round4 ((x * (35 / 100) + z * (25 / 100) + u * (15 / 100))
                                    / (35 / 100 + 25 / 100 + 15 / 100)))"
       "beneish_signal r = Some x \<and> sloan_signal r = Some y
            \<and> piotroski_signal r = None \<and> altman_signal r = Some u
          \<longrightarrow> alpha r = Some (round4 ((x * (35 / 100) + y * (25 / 100) + u * (15 / 100))
                                    / (35 / 100 + 25 / 100 + 15 / 100)))"
       "beneish_signal r = Some x \<and> sloan_signal r = Some y
            \<and> piotroski_signal r = Some z \<and> altman_signal r = None
          \<longrightarrow> alpha r = Some (round4 ((x * (35 / 100) + y * (25 / 100) + z * (25 / 100))
                                    / (35 / 100 + 25 / 100 + 25 / 100)))"
    for x y z u
    unfolding al by (auto simp only: blend_one_missing round_cell_def option.map)
  have W: "w_beneish = 35 / 100 \<and> w_sloan = 25 / 100 \<and> w_piotroski = 25 / 100 \<and> w_altman = 15 / 100
    \<and> w_beneish + w_sloan + w_piotroski + w_altman = 1"
    by (simp add: w_beneish_def w_sloan_def w_piotroski_def w_altman_def)
  from A B W show ?thesis unfolding r_def by blast
qed

text \<open>
  A run over the years 2020 to 2024 with \<open>min_signals = 3\<close>. In 2024 the beneish signal
  is missing, the sloan signal is -1.5 and the other two are 0: the alpha is
  \<open>-0.375 / 0.65\<close> rounded, that is -0.5769, not \<open>-0.375 / 1.0\<close>.
\<close>

lemma run_one_missing:
  "forensic_alpha
     [(2020, Some 0), (2021, Some 0), (2022, Some 0), (2023, Some 1), (2024, None)]
     [(2020, None), (2021, Some 1), (2022, Some 1), (2023, Some 1), (2024, Some 2)]
     [(2020, Some 2), (2021, Some 2), (2022, Some 2), (2023, Some 2), (2024, Some 2)]
     [(2020, Some 3), (2021, Some 3), (2022, Some 3), (2023, Some 3), (2024, Some 3)] 3 =
   Inr [\<lparr>year = 2020, beneish_signal = Some 0, sloan_signal = Some 0, piotroski_signal = Some 0,
         altman_signal = Some 0, alpha = Some 0, signal_count = 3, signal = ''Neutral''\<rparr>,
        \<lparr>year = 2021, beneish_signal = Some 0, sloan_signal = Some 0, piotroski_signal = Some 0,
         altman_signal = Some 0, alpha = Some 0, signal_count = 4, signal = ''Neutral''\<rparr>,
        \<lparr>year = 2022, beneish_signal = Some 0, sloan_signal = Some 0, piotroski_signal = Some 0,
         altman_signal = Some 0, alpha = Some 0, signal_count = 4, signal = ''Neutral''\<rparr>,
        \<lparr>year = 2023, beneish_signal = Some (- (3 / 2)), sloan_signal = Some 0,
         piotroski_signal = Some 0, altman_signal = Some 0, alpha = Some (- (21 / 40)),
         signal_count = 4, signal = ''Negative''\<rparr>,
        \<lparr>year = 2024, beneish_signal = None, sloan_signal = Some (- (3 / 2)),
         piotroski_signal = Some 0, altman_signal = Some 0, alpha = Some (- (5769 / 10000)),
         signal_count = 3, signal = ''Negative''\<rparr>]"
  by (simp add: eval_defs power2_eq_square real_sqrt_divide)

theorem blending_formula_witness:
  "forensic_alpha
     [(2020, Some 0), (2021, Some 0), (2022, Some 0), (2023, Some 1), (2024, None)]
     [(2020, None), (2021, Some 1), (2022, Some 1), (2023, Some 1), (2024, Some 2)]
     [(2020, Some 2), (2021, Some 2), (2022, Some 2), (2023, Some 2), (2024, Some 2)]
     [(2020, Some 3), (2021, Some 3), (2022, Some 3), (2023, Some 3), (2024, Some 3)] 3 =
   Inr [\<lparr>year = 2020, beneish_signal = Some 0, sloan_signal = Some 0, piotroski_signal = Some 0,
         altman_signal = Some 0, alpha = Some 0, signal_count = 3, signal = ''Neutral''\<rparr>,
        \<lparr>year = 2021, beneish_signal = Some 0, sloan_signal = Some 0, piotroski_signal = Some 0,
         altman_signal = Some 0, alpha = Some 0, signal_count = 4, signal = ''Neutral''\<rparr>,
        \<lparr>year = 2022, beneish_signal = Some 0, sloan_signal = Some 0, piotroski_signal = Some 0,
         altman_signal = Some 0, alpha = Some 0, signal_count = 4, signal = ''Neutral''\<rparr>,
        \<lparr>year = 2023, beneish_signal = Some (- (3 / 2)), sloan_signal = Some 0,
         piotroski_signal = Some 0, altman_signal = Some 0, alpha = Some (- (21 / 40)),
         signal_count = 4, signal = ''Negative''\<rparr>,
        \<lparr>year = 2024, beneish_signal = None, sloan_signal = Some (- (3 / 2)),
         piotroski_signal = Some 0, altman_signal = Some 0, alpha = Some (- (5769 / 10000)),
         signal_count = 3, signal = ''Negative''\<rparr>]
   \<and> (4::nat) < 5
   \<and> Some (- (5769 / 10000)) =
       Some (round4 ((- (3 / 2) * (25 / 100) + 0 * (25 / 100) + 0 * (15 / 100))
                      / (25 / 100 + 25 / 100 + 15 / 100)))"
proof -
  let ?t = "[\<lparr>year = 2020, beneish_signal = Some 0, sloan_signal = Some 0, piotroski_signal = Some 0,
         altman_signal = Some 0, alpha = Some 0, signal_count = 3, signal = ''Neutral''\<rparr>,
        \<lparr>year = 2021, beneish_signal = Some 0, sloan_signal = Some 0, piotroski_signal = Some 0,
         altman_signal = Some 0, alpha = Some 0, signal_count = 4, signal = ''Neutral''\<rparr>,
        \<lparr>year = 2022, beneish_signal = Some 0, sloan_signal = Some 0, piotroski_signal = Some 0,
         altman_signal = Some 0, alpha = Some 0, signal_count = 4, signal = ''Neutral''\<rparr>,
        \<lparr>year = 2023, beneish_signal = Some (- (3 / 2)), sloan_signal = Some 0,
         piotroski_signal = Some 0, altman_signal = Some 0, alpha = Some (- (21 / 40)),
         signal_count = 4, signal = ''Negative''\<rparr>,
        \<lparr>year = 2024, beneish_signal = None, sloan_signal = Some (- (3 / 2)),
         piotroski_signal = Some 0, altman_signal = Some 0, alpha = Some (- (5769 / 10000)),
         signal_count = 3, signal = ''Negative''\<rparr>]"
  have len: "4 < length ?t" by simp
  from blending_formula [OF run_one_missing len]
  have "\<forall>x y z u.
         (beneish_signal (?t ! 4) = None \<and> sloan_signal (?t ! 4) = Some y
            \<and> piotroski_signal (?t ! 4) = Some z \<and> altman_signal (?t ! 4) = Some u
          \<longrightarrow> alpha (?t ! 4) = Some (round4 ((y * (25 / 100) + z * (25 / 100) + u * (15 / 100))
                                    / (25 / 100 + 25 / 100 + 15 / 100))))"
    by blast
  from this [rule_format, of "- (3 / 2)" 0 0]
  have "Some (- (5769 / 10000)) =
       Some (round4 ((- (3 / 2) * (25 / 100) + 0 * (25 / 100) + 0 * (15 / 100))
                      / (25 / 100 + 25 / 100 + 15 / 100)))"
    by simp
  with run_one_missing show ?thesis by simp
qed

text \<open>
  The claim as written, without the rounding, fails. With beneish 0 then 1 and the
  other three series constant, the second year's beneish signal is \<open>- sqrt 2 / 2\<close> and
  the quotient is about -0.24749, while the returned alpha is -0.2475.
\<close>

lemma zscore_window_0_1: "zscore_window [Some 0, Some 1] = Some (sqrt 2 / 2)"
proof -
  have "sqrt (1 / 2) = sqrt 2 / 2"
    by (simp add: real_sqrt_divide real_div_sqrt)
  then show ?thesis
    by (simp add: zscore_window_def series_count_def series_std_def series_mean_def Let_def
        power2_eq_square field_simps)
qed

lemma rolling_zscore_0_1: "rolling_zscore [Some 0, Some 1] = [Some 0, Some (sqrt 2 / 2)]"
  using zscore_window_0_1
  by (simp add: rolling_zscore_def upt_rec zscore_window_def [of "[Some 0]"] series_count_def)

lemma rolling_zscore_0_0: "rolling_zscore [Some 0, Some 0] = [Some 0, Some 0]"
  using rolling_zscore_constant [of 2 0] by (simp add: numeral_2_eq_2)

lemma blend_sqrt:
  "blend (Some (- (sqrt 2 / 2))) (Some 0) (Some 0) (Some 0) = Some (- (7 * sqrt 2 / 40))"
  by (simp add: blend_def normalized_weights_def notna_weight_def mul_def weighted_def nansum_def
      w_beneish_def w_sloan_def w_piotroski_def w_altman_def Let_def)

lemma round4_sqrt: "round4 (- (7 * sqrt 2 / 40)) = - (99 / 400)"
proof -
  have "rint (- (7 * sqrt 2 / 40) * 10000) = - 2475"
    using sqrt2_bounds by (intro rint_nearest) simp_all
  then show ?thesis by (simp add: round4_def)
qed

theorem blending_formula_counterexample:
  "forensic_alpha [(2020, Some 0), (2021, Some 1)] [(2020, Some 0), (2021, Some 0)]
      [(2020, Some 0), (2021, Some 0)] [(2020, Some 0), (2021, Some 0)] 3 =
   Inr [\<lparr>year = 2020, beneish_signal = Some 0, sloan_signal = Some 0, piotroski_signal = Some 0,
         altman_signal = Some 0, alpha = Some 0, signal_count = 4, signal = ''Neutral''\<rparr>,
        \<lparr>year = 2021, beneish_signal = Some (- (sqrt 2 / 2)), sloan_signal = Some 0,
         piotroski_signal = Some 0, altman_signal = Some 0, alpha = Some (- (99 / 400)),
         signal_count = 4, signal = ''Neutral''\<rparr>]
   \<and> (- (sqrt 2 / 2) * (35 / 100) + 0 * (25 / 100) + 0 * (25 / 100) + 0 * (15 / 100))
      / (35 / 100 + 25 / 100 + 25 / 100 + 15 / 100) \<noteq> - (99 / 400)"
proof -
  have b0: "round_cell (blend (Some 0) (Some 0) (Some 0) (Some 0)) = Some 0"
    by (simp add: eval_defs)
  have b1: "round_cell (blend (Some (- (sqrt 2 / 2))) (Some 0) (Some 0) (Some 0))
      = Some (- (99 / 400))"
    by (simp add: blend_sqrt round4_sqrt round_cell_def)
  have l: "label (Some 0) = ''Neutral''" "label (Some (- (99 / 400))) = ''Neutral''"
    by (simp_all add: label_def gt_def lt_def)
  have run: "forensic_alpha [(2020, Some 0), (2021, Some 1)] [(2020, Some 0), (2021, Some 0)]
      [(2020, Some 0), (2021, Some 0)] [(2020, Some 0), (2021, Some 0)] 3 =
   Inr [\<lparr>year = 2020, beneish_signal = Some 0, sloan_signal = Some 0, piotroski_signal = Some 0,
         altman_signal = Some 0, alpha = Some 0, signal_count = 4, signal = ''Neutral''\<rparr>,
        \<lparr>year = 2021, beneish_signal = Some (- (sqrt 2 / 2)), sloan_signal = Some 0,
         piotroski_signal = Some 0, altman_signal = Some 0, alpha = Some (- (99 / 400)),
         signal_count = 4, signal = ''Neutral''\<rparr>]"
    by (simp add: forensic_alpha_def data_frame_def union_indexes_def reindex_def keep_rows_def
        notna_sum_def series_count_def result_rows_def rolling_zscore_0_1 rolling_zscore_0_0
        neg_def b0 b1 l Let_def upt_rec)
  have "(2::real) < (99 / 70)\<^sup>2" by (simp add: power2_eq_square)
  then have "sqrt 2 < 99 / 70" by (intro real_less_lsqrt) simp_all
  then have ne: "(- (sqrt 2 / 2) * (35 / 100) + 0 * (25 / 100) + 0 * (25 / 100) + 0 * (15 / 100))
      / (35 / 100 + 25 / 100 + 25 / 100 + 15 / 100) \<noteq> - (99 / 400)"
    by simp
  from run ne show ?thesis by (rule conjI)
qed


section \<open>The label of a missing alpha\<close>

text \<open>
  C3 (amended). \<open>label\<close> has no case for a missing alpha: every comparison with NaN
  is false, the chain falls through to its last branch, and the row is labelled
  "Neutral". In every returned row the label is \<open>label\<close> of the row's rounded alpha;
  with \<open>min_signals\<close> at least 1 no returned row has a missing alpha.
\<close>

theorem null_alpha_label:
  "label None = ''Neutral''
   \<and> (forensic_alpha b s p a m = Inr t \<longrightarrow>
        (\<forall>r \<in> set t. signal r = label (alpha r)
           \<and> (alpha r = None \<longrightarrow> signal r = ''Neutral'')
           \<and> (1 \<le> m \<longrightarrow> alpha r \<noteq> None)))"
proof -
  have n: "label None = ''Neutral''" by (simp add: label_def gt_def lt_def)
  have "signal r = label (alpha r) \<and> (alpha r = None \<longrightarrow> signal r = ''Neutral'')
           \<and> (1 \<le> m \<longrightarrow> alpha r \<noteq> None)"
    if res: "forensic_alpha b s p a m = Inr t" and r: "r \<in> set t" for r
  proof -
    have l: "signal r = label (alpha r)" using res r by (rule row_alpha_label(2))
    have "alpha r \<noteq> None" if "1 \<le> m" using that res r by (rule surviving_row_alpha)
    with l n show ?thesis by auto
  qed
  with n show ?thesis by blast
qed

theorem null_alpha_label_witness:
  "forensic_alpha [(2022, Some 7)] [(2022, Some 1)] [(2022, None)] [(2022, Some 2)] 3 =
     Inr [\<lparr>year = 2022, beneish_signal = Some 0, sloan_signal = Some 0,
           piotroski_signal = Some 0, altman_signal = Some 0, alpha = Some 0,
           signal_count = 3, signal = ''Neutral''\<rparr>]
   \<and> (1::int) \<le> 3
   \<and> signal \<lparr>year = 2022, beneish_signal = Some 0, sloan_signal = Some 0,
           piotroski_signal = Some 0, altman_signal = Some 0, alpha = Some 0,
           signal_count = 3, signal = ''Neutral''\<rparr> = label (Some 0)
   \<and> alpha \<lparr>year = 2022, beneish_signal = Some 0, sloan_signal = Some 0,
           piotroski_signal = Some 0, altman_signal = Some 0, alpha = Some 0,
           signal_count = 3, signal = ''Neutral''\<rparr> \<noteq> None"
proof -
  let ?r = "\<lparr>year = 2022, beneish_signal = Some 0, sloan_signal = Some 0,
           piotroski_signal = Some 0, altman_signal = Some 0, alpha = Some 0,
           signal_count = 3, signal = ''Neutral''\<rparr>"
  have run: "forensic_alpha [(2022, Some 7)] [(2022, Some 1)] [(2022, None)] [(2022, Some 2)] 3
      = Inr [?r]"
    by (simp add: eval_defs)
  from null_alpha_label [of "[(2022, Some 7)]" "[(2022, Some 1)]" "[(2022, None)]"
      "[(2022, Some 2)]" 3 "[?r]"] run
  have "signal ?r = label (alpha ?r) \<and> alpha ?r \<noteq> None" by simp
  with run show ?thesis by simp
qed

text \<open>
  The claim as written fails: \<open>label\<close> of a missing alpha is "Neutral", and a run
  with \<open>min_signals = 0\<close> returns such a row (the year 2023, where all four series are
  missing after four present years).
\<close>

theorem null_alpha_label_counterexample:
  "label None = ''Neutral''
   \<and> forensic_alpha
       [(2019, Some 0), (2020, Some 0), (2021, Some 0), (2022, Some 1), (2023, None)]
       [(2019, Some 0), (2020, Some 0), (2021, Some 0), (2022, Some 1), (2023, None)]
       [(2019, Some 0), (2020, Some 0), (2021, Some 0), (2022, Some 1), (2023, None)]
       [(2019, Some 0), (2020, Some 0), (2021, Some 0), (2022, Some 1), (2023, None)] 0 =
     Inr [\<lparr>year = 2019, beneish_signal = Some 0, sloan_signal = Some 0, piotroski_signal = Some 0,
           altman_signal = Some 0, alpha = Some 0, signal_count = 4, signal = ''Neutral''\<rparr>,
          \<lparr>year = 2020, beneish_signal = Some 0, sloan_signal = Some 0, piotroski_signal = Some 0,
           altman_signal = Some 0, alpha = Some 0, signal_count = 4, signal = ''Neutral''\<rparr>,
          \<lparr>year = 2021, beneish_signal = Some 0, sloan_signal = Some 0, piotroski_signal = Some 0,
           altman_signal = Some 0, alpha = Some 0, signal_count = 4, signal = ''Neutral''\<rparr>,
          \<lparr>year = 2022, beneish_signal = Some (- (3 / 2)), sloan_signal = Some (- (3 / 2)),
           piotroski_signal = Some (3 / 2), altman_signal = Some (3 / 2),
           alpha = Some (- (3 / 10)), signal_count = 4, signal = ''Neutral''\<rparr>,
          \<lparr>year = 2023, beneish_signal = None, sloan_signal = None, piotroski_signal = None,
           altman_signal = None, alpha = None, signal_count = 0, signal = ''Neutral''\<rparr>]"
  by (simp add: eval_defs power2_eq_square real_sqrt_divide)

section \<open>Missing source values in the normalised table\<close>

text \<open>
  C4. The claim is that a normalised entry is missing exactly where the source value
  is missing. The code keeps a missing source missing only in the branch that divides;
  the guard for a window with fewer than two present values, or with standard
  deviation 0, appends 0.0 whatever the current value is. So a metric that is missing
  in all four years gets the signal 0.0 in each of them, its weight 0.35 stays in the
  denominator, and the alpha of 2023 is \<open>-0.375 / 1.0\<close> instead of \<open>-0.375 / 0.65\<close>.
  In one series a missing first value becomes 0.0 while a missing last value, after a
  window with spread, stays missing.
\<close>

theorem normalized_null_source:
  "forensic_alpha
     [(2020, None), (2021, None), (2022, None), (2023, None)]
     [(2020, Some 1), (2021, Some 1), (2022, Some 1), (2023, Some 2)]
     [(2020, Some 2), (2021, Some 2), (2022, Some 2), (2023, Some 2)]
     [(2020, Some 3), (2021, Some 3), (2022, Some 3), (2023, Some 3)] 3 =
   Inr [\<lparr>year = 2020, beneish_signal = Some 0, sloan_signal = Some 0, piotroski_signal = Some 0,
         altman_signal = Some 0, alpha = Some 0, signal_count = 3, signal = ''Neutral''\<rparr>,
        \<lparr>year = 2021, beneish_signal = Some 0, sloan_signal = Some 0, piotroski_signal = Some 0,
         altman_signal = Some 0, alpha = Some 0, signal_count = 3, signal = ''Neutral''\<rparr>,
        \<lparr>year = 2022, beneish_signal = Some 0, sloan_signal = Some 0, piotroski_signal = Some 0,
         altman_signal = Some 0, alpha = Some 0, signal_count = 3, signal = ''Neutral''\<rparr>,
        \<lparr>year = 2023, beneish_signal = Some 0, sloan_signal = Some (- (3 / 2)),
         piotroski_signal = Some 0, altman_signal = Some 0, alpha = Some (- (3 / 8)),
         signal_count = 3, signal = ''Negative''\<rparr>]
   \<and> rolling_zscore [None, Some 0, Some 0, Some 0, Some 1, None]
       = [Some 0, Some 0, Some 0, Some 0, Some (3 / 2), None]"
  by (simp add: eval_defs power2_eq_square real_sqrt_divide)

section \<open>Rounding of the alpha\<close>

text \<open>
  C10 (amended). Every alpha in the returned table is the value before rounding,
  rounded to the nearest multiple of 0.0001 with ties to the even multiple: it is a
  whole number of ten-thousandths, rounding it again changes nothing, and it lies
  within 0.00005 of the value before rounding. Two values before rounding that lie
  strictly within 0.00005 of the same multiple of 0.0001 give the same alpha. Values
  that agree in their first four decimals need not: see the counterexample.
\<close>

theorem alpha_rounding:
  "(forensic_alpha b s p a m = Inr t \<longrightarrow>
      (\<forall>r \<in> set t.
         alpha r = map_option round4 (blend (beneish_signal r) (sloan_signal r)
                                        (piotroski_signal r) (altman_signal r))
         \<and> (\<forall>v. alpha r = Some v \<longrightarrow> (\<exists>k::int. v = of_int k / 10000) \<and> round4 v = v)))
   \<and> (\<exists>k::int. round4 x = of_int k / 10000)
   \<and> \<bar>round4 x - x\<bar> \<le> 1 / 20000
   \<and> (of_int k - 1 / 2 < x * 10000 \<and> x * 10000 < of_int k + 1 / 2
        \<and> of_int k - 1 / 2 < y * 10000 \<and> y * 10000 < of_int k + 1 / 2
      \<longrightarrow> round4 x = round4 y \<and> round4 x = of_int k / 10000)"
proof -
  have A: "alpha r = map_option round4 (blend (beneish_signal r) (sloan_signal r)
                                        (piotroski_signal r) (altman_signal r))
         \<and> (\<forall>v. alpha r = Some v \<longrightarrow> (\<exists>k::int. v = of_int k / 10000) \<and> round4 v = v)"
    if res: "forensic_alpha b s p a m = Inr t" and r: "r \<in> set t" for r
  proof -
    have al: "alpha r = map_option round4 (blend (beneish_signal r) (sloan_signal r)
                                        (piotroski_signal r) (altman_signal r))"
      using row_alpha_label(1) [OF res r] by (simp add: round_cell_def)
    have "(\<exists>k::int. v = of_int k / 10000) \<and> round4 v = v" if "alpha r = Some v" for v
    proof -
      from that al obtain u where "v = round4 u" by auto
      then have v: "v = of_int (rint (u * 10000)) / 10000" by (simp add: round4_def)
      then have "round4 v = v" by (simp only: round4_fixed)
      with v show ?thesis by blast
    qed
    with al show ?thesis by blast
  qed
  have B: "\<exists>k::int. round4 x = of_int k / 10000" by (auto simp: round4_def)
  have C: "\<bar>round4 x - x\<bar> \<le> 1 / 20000" by (rule round4_close)
  have D: "round4 x = round4 y \<and> round4 x = of_int k / 10000"
    if "of_int k - 1 / 2 < x * 10000 \<and> x * 10000 < of_int k + 1 / 2
        \<and> of_int k - 1 / 2 < y * 10000 \<and> y * 10000 < of_int k + 1 / 2"
  proof -
    from that have "rint (x * 10000) = k" "rint (y * 10000) = k"
      by (simp_all add: rint_nearest)
    then show ?thesis by (simp add: round4_def)
  qed
  from A B C D show ?thesis by blast
qed

theorem alpha_rounding_witness:
  "forensic_alpha [(2022, Some 7)] [(2022, None)] [(2022, Some 1)] [(2022, Some 2)] 3 =
     Inr [\<lparr>year = 2022, beneish_signal = Some 0, sloan_signal = Some 0,
           piotroski_signal = Some 0, altman_signal = Some 0, alpha = Some 0,
           signal_count = 3, signal = ''Neutral''\<rparr>]
   \<and> round4 0 = 0
   \<and> of_int 1234 - 1 / 2 < (12344 / 100000) * (10000::real)
   \<and> (12344 / 100000) * (10000::real) < of_int 1234 + 1 / 2
   \<and> of_int 1234 - 1 / 2 < (12341 / 100000) * (10000::real)
   \<and> (12341 / 100000) * (10000::real) < of_int 1234 + 1 / 2
   \<and> round4 (12344 / 100000) = round4 (12341 / 100000)
   \<and> round4 (12344 / 100000) = of_int 1234 / 10000"
proof -
  let ?r = "\<lparr>year = 2022, beneish_signal = Some 0, sloan_signal = Some 0,
           piotroski_signal = Some 0, altman_signal = Some 0, alpha = Some 0,
           signal_count = 3, signal = ''Neutral''\<rparr>"
  have run: "forensic_alpha [(2022, Some 7)] [(2022, None)] [(2022, Some 1)] [(2022, Some 2)] 3
      = Inr [?r]"
    by (simp add: eval_defs)
  note th = alpha_rounding [of "[(2022, Some 7)]" "[(2022, None)]" "[(2022, Some 1)]"
      "[(2022, Some 2)]" 3 "[?r]" "12344 / 100000" 1234 "12341 / 100000"]
  from th run have "round4 0 = 0" by simp
  moreover from th have "round4 (12344 / 100000) = round4 (12341 / 100000)
     \<and> round4 (12344 / 100000) = of_int 1234 / 10000" by simp
  ultimately show ?thesis using run by simp
qed

text \<open>
  The claim as written fails: 0.12344 and 0.12346 differ only beyond the fourth
  decimal (both begin 0.1234), and as the only present signal of a row they are
  also the values before rounding, yet they are rounded to 0.1234 and 0.1235.
\<close>

theorem alpha_rounding_counterexample:
  "\<lfloor>(12344 / 100000 :: real) * 10000\<rfloor> = \<lfloor>(12346 / 100000 :: real) * 10000\<rfloor>
   \<and> blend None None (Some (12344 / 100000)) None = Some (12344 / 100000)
   \<and> blend None None (Some (12346 / 100000)) None = Some (12346 / 100000)
   \<and> round_cell (Some (12344 / 100000)) = Some (1234 / 10000)
   \<and> round_cell (Some (12346 / 100000)) = Some (1235 / 10000)
   \<and> (1234 / 10000 :: real) \<noteq> 1235 / 10000"
  by (simp add: eval_defs)


end
